theory Spec2Isabelle
  imports Main "HOL-Library.Word"
begin

unbundle bit_operations_syntax

section \<open>Data model of \<^verbatim>\<open>EmailGetList.ts\<close>\<close>

text \<open>
  The inclusion flags of the node parameter \<^verbatim>\<open>includeParts\<close> (enum \<^verbatim>\<open>EmailParts\<close>,
  lines 8-15). The parameter is a list of these values; \<^verbatim>\<open>includes\<close> is list membership.
\<close>

datatype EmailParts =
  BodyStructure | Flags | Size | AttachmentsInfo | TextContent | HtmlContent

text \<open>
  A node of the body structure as the mail library delivers it: a JavaScript object on
  which the code reads the keys \<^verbatim>\<open>part\<close>, \<^verbatim>\<open>type\<close>, \<^verbatim>\<open>encoding\<close>, \<^verbatim>\<open>size\<close>,
  \<^verbatim>\<open>disposition\<close>, \<^verbatim>\<open>dispositionParameters\<close> and \<^verbatim>\<open>childNodes\<close>. A key that may be
  missing is an option (\<open>None\<close>: the key is absent or undefined). The code tests
  \<^verbatim>\<open>childNodes\<close> for truthiness, and every array is truthy in JavaScript, the empty one
  too: the test is \<open>childNodes n \<noteq> None\<close>.
\<close>

datatype node = Node
  (part: "string option")
  (node_type: string)
  (node_encoding: "string option")
  (node_size: "nat option")
  (node_disposition: "string option")
  (dispositionParameters: "(string \<rightharpoonup> string) option")
  (childNodes: "node list option")

text \<open>Interface \<^verbatim>\<open>EmailPartInfo\<close> (lines 17-25); \<^verbatim>\<open>parameters\<close> is never written.\<close>

record EmailPartInfo =
  partId :: "string option"
  filename :: "string option"
  part_type :: string
  part_encoding :: "string option"
  part_size :: nat
  part_disposition :: "string option"

text \<open>The object literal pushed to \<^verbatim>\<open>attachmentsInfo\<close> (lines 190-196).\<close>

record attachment =
  att_partId :: "string option"
  att_filename :: "string option"
  att_type :: string
  att_encoding :: "string option"
  att_size :: nat

text \<open>
  The three local variables of the per-message analysis (lines 174-176):
  \<^verbatim>\<open>textPartId\<close> and \<^verbatim>\<open>htmlPartId\<close> start as null, \<^verbatim>\<open>attachmentsInfo\<close> as the empty
  array.
\<close>

record parts_state =
  textPartId :: "string option"
  htmlPartId :: "string option"
  attachmentsInfo :: "attachment list"

text \<open>
  The retrieval descriptor \<^verbatim>\<open>fetchQuery\<close> (lines 131-156). A key that is not set is
  \<open>False\<close>.
\<close>

record fetchQuery =
  q_uid :: bool
  q_envelope :: bool
  q_bodyStructure :: bool
  q_flags :: bool
  q_size :: bool

text \<open>
  A fetched message: the code reads \<^verbatim>\<open>uid\<close> and \<^verbatim>\<open>bodyStructure\<close>; everything else
  the library returns is carried along in \<open>envelope\<close>.
\<close>

record email =
  uid :: nat
  bodyStructure :: "node option"
  envelope :: string

text \<open>
  The output object \<^verbatim>\<open>item_json\<close>: a copy of the message
  (\<^verbatim>\<open>JSON.parse(JSON.stringify(email))\<close>, line 170) to which the keys
  \<^verbatim>\<open>attachmentsInfo\<close>, \<^verbatim>\<open>textContent\<close> and \<^verbatim>\<open>htmlContent\<close> may be added; \<open>None\<close> is
  a key that was not added.
\<close>

type_synonym byte = "8 word"

type_synonym js_text = "nat list"

record item_json =
  json_email :: email
  json_attachmentsInfo :: "attachment list option"
  json_textContent :: "js_text option"
  json_htmlContent :: "js_text option"

section \<open>Promises, streams and the protocol client\<close>

datatype error = Error string

text \<open>
  The state in which an awaited promise is found: fulfilled, rejected, or never settled.
  Awaiting a promise that never settles suspends the caller for good.
\<close>

datatype 'a promise = Resolved 'a | Rejected error | Pending

text \<open>
  A readable stream is the sequence of events it emits to its listeners; an async
  iterator is the sequence of results of its \<^verbatim>\<open>next()\<close> calls. A sequence that stops
  without a final event is a source that stalls.
\<close>

datatype stream_event = Data "byte list" | EndEv | ErrorEv error

datatype 'a iter_event = Yield 'a | Return | Throw error

text \<open>
  What the code asks of the client and what it reads back from the bulk fetch, in the
  order in which it happens.
\<close>

datatype event =
    CallMailboxOpen string
  | CallFetch fetchQuery
  | FetchNext nat
  | FetchDone
  | CallDownload string string

type_synonym 'a io = "event list \<times> 'a promise"

text \<open>
  The client \<^verbatim>\<open>ImapFlow\<close>, by the three methods the code calls:
  \<^verbatim>\<open>mailboxOpen(path, {readOnly: true})\<close>, \<^verbatim>\<open>fetch(searchObject, fetchQuery)\<close> and
  \<^verbatim>\<open>download(uid, part, {uid: true})\<close>, whose result carries the stream \<^verbatim>\<open>content\<close>.
  The search object is opaque to the code.
\<close>

record ImapFlow =
  mailboxOpen :: "string \<Rightarrow> unit promise"
  fetch :: "string \<Rightarrow> fetchQuery \<Rightarrow> email iter_event list"
  download :: "string \<Rightarrow> string \<Rightarrow> stream_event list promise"

text \<open>\<^verbatim>\<open>await m\<close> followed by the rest of the function.\<close>

definition await_then :: "'a io \<Rightarrow> ('a \<Rightarrow> 'b io) \<Rightarrow> 'b io" where
  "await_then m f =
     (case m of
        (t, Resolved a) \<Rightarrow> (case f a of (t', r) \<Rightarrow> (t @ t', r))
      | (t, Rejected e) \<Rightarrow> (t, Rejected e)
      | (t, Pending) \<Rightarrow> (t, Pending))"

section \<open>\<^verbatim>\<open>streamToString\<close> (lines 27-38)\<close>

text \<open>
  \<^verbatim>\<open>Buffer.toString('utf8')\<close> is a function of the runtime, not of the repository. It
  has no error result: a byte sequence that is not valid UTF-8 is replaced by U+FFFD. The
  decoder below is the UTF-8 decoder with replacement of the Encoding Standard (state: the
  code point so far, the continuation bytes still needed, the bounds of the next byte);
  its result is the list of the code points of the string. The properties below rest on
  two facts about it only: it is total, and a byte that cannot start a sequence, such as
  FF, becomes U+FFFD.
\<close>

function utf8_decode :: "nat \<Rightarrow> nat \<Rightarrow> byte \<Rightarrow> byte \<Rightarrow> byte list \<Rightarrow> js_text" where
  "utf8_decode cp needed lower upper [] = (if needed \<noteq> 0 then [0xFFFD] else [])"
| "utf8_decode cp needed lower upper (b # bs) =
     (if needed = 0 then
        (if b \<le> 0x7F then unat b # utf8_decode 0 0 0x80 0xBF bs
         else if 0xC2 \<le> b \<and> b \<le> 0xDF then
           utf8_decode (unat (b AND 0x1F)) 1 0x80 0xBF bs
         else if 0xE0 \<le> b \<and> b \<le> 0xEF then
           utf8_decode (unat (b AND 0x0F)) 2
             (if b = 0xE0 then 0xA0 else 0x80) (if b = 0xED then 0x9F else 0xBF) bs
         else if 0xF0 \<le> b \<and> b \<le> 0xF4 then
           utf8_decode (unat (b AND 0x07)) 3
             (if b = 0xF0 then 0x90 else 0x80) (if b = 0xF4 then 0x8F else 0xBF) bs
         else 0xFFFD # utf8_decode 0 0 0x80 0xBF bs)
      else if b < lower \<or> upper < b then
        0xFFFD # utf8_decode 0 0 0x80 0xBF (b # bs)
      else
        (let cp' = cp * 64 + unat (b AND 0x3F)
         in if needed = 1 then cp' # utf8_decode 0 0 0x80 0xBF bs
            else utf8_decode cp' (needed - 1) 0x80 0xBF bs))"
  by pat_completeness auto
termination
  by (relation "measure (\<lambda>(cp, needed, lower, upper, bs).
        2 * length bs + (if needed = 0 then 0 else 1))") auto

definition toString_utf8 :: "byte list \<Rightarrow> js_text" where
  "toString_utf8 bs = utf8_decode 0 0 0x80 0xBF bs"

text \<open>
  The three listeners: \<^verbatim>\<open>data\<close> pushes the chunk, \<^verbatim>\<open>end\<close> resolves with the decoded
  concatenation, \<^verbatim>\<open>error\<close> rejects. A promise settles once, so the events after the
  first \<^verbatim>\<open>end\<close> or \<^verbatim>\<open>error\<close> change nothing.
\<close>

fun streamListeners :: "byte list list \<Rightarrow> stream_event list \<Rightarrow> js_text promise" where
  "streamListeners chunks [] = Pending"
| "streamListeners chunks (Data chunk # evs) = streamListeners (chunks @ [chunk]) evs"
| "streamListeners chunks (EndEv # evs) = Resolved (toString_utf8 (concat chunks))"
| "streamListeners chunks (ErrorEv e # evs) = Rejected e"

definition streamToString :: "stream_event list \<Rightarrow> js_text promise" where
  "streamToString stream = streamListeners [] stream"

section \<open>\<^verbatim>\<open>getEmailPartsInfoRecursive\<close> (lines 41-71)\<close>

text \<open>
  Lines 48-59: the descriptor built for a child node that has the key \<^verbatim>\<open>size\<close>. The
  disposition is copied when the key is there, the file name only for the disposition
  \<^verbatim>\<open>attachment\<close> (\<^verbatim>\<open>dispositionParameters?.filename\<close>).
\<close>

definition partInfoOf :: "node \<Rightarrow> nat \<Rightarrow> EmailPartInfo" where
  "partInfoOf childNode sz =
     (let partInfo = \<lparr>partId = part childNode, filename = None,
                       part_type = node_type childNode,
                       part_encoding = node_encoding childNode,
                       part_size = sz, part_disposition = None\<rparr>
      in case node_disposition childNode of
           None \<Rightarrow> partInfo
         | Some d \<Rightarrow>
             (let partInfo = partInfo\<lparr>part_disposition := Some d\<rparr>
              in if d = ''attachment''
                 then partInfo\<lparr>filename :=
                        (case dispositionParameters childNode of
                           None \<Rightarrow> None
                         | Some params \<Rightarrow> params ''filename'')\<rparr>
                 else partInfo))"

text \<open>
  The function and its \<^verbatim>\<open>for\<close> loop over \<^verbatim>\<open>childNodes\<close>; \<open>partsInfo\<close> is the array
  the loop extends, by \<^verbatim>\<open>push\<close> and by \<^verbatim>\<open>concat\<close> of the recursive call's result.
\<close>

fun getEmailPartsInfoRecursive :: "node \<Rightarrow> EmailPartInfo list"
  and forChildNodes :: "EmailPartInfo list \<Rightarrow> node list \<Rightarrow> EmailPartInfo list" where
  "getEmailPartsInfoRecursive (Node p t e s d dp None) = []"
| "getEmailPartsInfoRecursive (Node p t e s d dp (Some cs)) = forChildNodes [] cs"
| "forChildNodes partsInfo [] = partsInfo"
| "forChildNodes partsInfo (childNode # rest) =
     (let partsInfo = (case node_size childNode of
                         None \<Rightarrow> partsInfo
                       | Some sz \<Rightarrow> partsInfo @ [partInfoOf childNode sz]);
          partsInfo = (if childNodes childNode \<noteq> None
                       then partsInfo @ getEmailPartsInfoRecursive childNode
                       else partsInfo)
      in forChildNodes partsInfo rest)"

section \<open>\<^verbatim>\<open>executeImapAction\<close> (lines 119-245)\<close>

text \<open>Lines 131-156: the retrieval descriptor.\<close>

definition buildFetchQuery :: "EmailParts list \<Rightarrow> fetchQuery" where
  "buildFetchQuery includeParts =
     (let fetchQuery = \<lparr>q_uid = True, q_envelope = True, q_bodyStructure = False,
                         q_flags = False, q_size = False\<rparr>;
          fetchQuery = (if BodyStructure \<in> set includeParts
                        then fetchQuery\<lparr>q_bodyStructure := True\<rparr> else fetchQuery);
          fetchQuery = (if Flags \<in> set includeParts
                        then fetchQuery\<lparr>q_flags := True\<rparr> else fetchQuery);
          fetchQuery = (if Size \<in> set includeParts
                        then fetchQuery\<lparr>q_size := True\<rparr> else fetchQuery);
          includeAttachmentsInfo = AttachmentsInfo \<in> set includeParts;
          fetchQuery = (if includeAttachmentsInfo
                        then fetchQuery\<lparr>q_bodyStructure := True\<rparr> else fetchQuery);
          includeTextContent = TextContent \<in> set includeParts;
          includeHtmlContent = HtmlContent \<in> set includeParts
      in if includeTextContent \<or> includeHtmlContent
         then fetchQuery\<lparr>q_bodyStructure := True\<rparr> else fetchQuery)"

text \<open>
  Lines 161-164: the \<^verbatim>\<open>for await\<close> loop that pushes every fetched message to
  \<^verbatim>\<open>emailsList\<close>. It ends when the iterator returns; an iterator that throws rejects
  the whole function.
\<close>

fun forAwaitFetch :: "email list \<Rightarrow> email iter_event list \<Rightarrow> email list io" where
  "forAwaitFetch emailsList [] = ([], Pending)"
| "forAwaitFetch emailsList (Yield e # evs) =
     (case forAwaitFetch (emailsList @ [e]) evs of (t, r) \<Rightarrow> (FetchNext (uid e) # t, r))"
| "forAwaitFetch emailsList (Return # evs) = ([FetchDone], Resolved emailsList)"
| "forAwaitFetch emailsList (Throw err # evs) = ([], Rejected err)"

text \<open>Lines 188-205: the loop over the descriptors of a multipart message.\<close>

fun forPartsInfo :: "parts_state \<Rightarrow> EmailPartInfo list \<Rightarrow> parts_state" where
  "forPartsInfo st [] = st"
| "forPartsInfo st (partInfo # rest) =
     forPartsInfo
       (if part_disposition partInfo = Some ''attachment'' then
          st\<lparr>attachmentsInfo := attachmentsInfo st @
               [\<lparr>att_partId = partId partInfo, att_filename = filename partInfo,
                 att_type = part_type partInfo, att_encoding = part_encoding partInfo,
                 att_size = part_size partInfo\<rparr>]\<rparr>
        else
          (let st = (if part_type partInfo = ''text/plain''
                     then st\<lparr>textPartId := partId partInfo\<rparr> else st)
           in if part_type partInfo = ''text/html''
              then st\<lparr>htmlPartId := partId partInfo\<rparr> else st))
       rest"

text \<open>Lines 172-216: the analysis of one message's body structure.\<close>

definition analyzeBody :: "bool \<Rightarrow> node option \<Rightarrow> parts_state" where
  "analyzeBody analyzeBodyStructure bs =
     (let st = \<lparr>textPartId = None, htmlPartId = None, attachmentsInfo = []\<rparr>
      in if analyzeBodyStructure then
           (case bs of
              None \<Rightarrow> st
            | Some root \<Rightarrow>
                if childNodes root \<noteq> None then
                  forPartsInfo st (getEmailPartsInfoRecursive root)
                else
                  (let st = (if node_type root = ''text/plain''
                             then st\<lparr>textPartId := Some ''TEXT''\<rparr> else st)
                   in if node_type root = ''text/html''
                      then st\<lparr>htmlPartId := Some ''TEXT''\<rparr> else st))
         else st)"

text \<open>
  The truthiness of a part id in \<^verbatim>\<open>includeTextContent && textPartId\<close>: null, undefined
  and the empty string are falsy.
\<close>

definition truthy :: "string option \<Rightarrow> bool" where
  "truthy s = (case s of None \<Rightarrow> False | Some v \<Rightarrow> v \<noteq> [])"

text \<open>\<^verbatim>\<open>email.uid.toString()\<close>: the decimal digits of the number.\<close>

fun uid_toString :: "nat \<Rightarrow> string" where
  "uid_toString n =
     (if n < 10 then [''0123456789'' ! n]
      else uid_toString (n div 10) @ [''0123456789'' ! (n mod 10)])"

declare uid_toString.simps [simp del]

text \<open>
  \<^verbatim>\<open>await client.download(uid, partId, {uid: true})\<close> followed by
  \<^verbatim>\<open>await streamToString(result.content)\<close> (lines 225-228 and 232-235).
\<close>

definition downloadContent :: "ImapFlow \<Rightarrow> email \<Rightarrow> string \<Rightarrow> js_text io" where
  "downloadContent client e partId' =
     await_then
       ([CallDownload (uid_toString (uid e)) partId'],
        download client (uid_toString (uid e)) partId')
       (\<lambda>content. ([], streamToString content))"

text \<open>Lines 169-241: the body of the loop over \<^verbatim>\<open>emailsList\<close>, for one message.\<close>

definition processEmail :: "ImapFlow \<Rightarrow> bool \<Rightarrow> bool \<Rightarrow> bool \<Rightarrow> email \<Rightarrow> item_json io" where
  "processEmail client includeAttachmentsInfo includeTextContent includeHtmlContent e =
     (let item = \<lparr>json_email = e, json_attachmentsInfo = None,
                   json_textContent = None, json_htmlContent = None\<rparr>;
          analyzeBodyStructure =
            (includeAttachmentsInfo \<or> includeTextContent \<or> includeHtmlContent);
          st = analyzeBody analyzeBodyStructure (bodyStructure e);
          item = (if includeAttachmentsInfo
                  then item\<lparr>json_attachmentsInfo := Some (attachmentsInfo st)\<rparr>
                  else item)
      in if includeTextContent \<or> includeHtmlContent then
           await_then
             (if includeTextContent \<and> truthy (textPartId st) then
                await_then (downloadContent client e (the (textPartId st)))
                  (\<lambda>textContent. ([], Resolved (item\<lparr>json_textContent := Some textContent\<rparr>)))
              else ([], Resolved item))
             (\<lambda>item.
                if includeHtmlContent \<and> truthy (htmlPartId st) then
                  await_then (downloadContent client e (the (htmlPartId st)))
                    (\<lambda>htmlContent. ([], Resolved (item\<lparr>json_htmlContent := Some htmlContent\<rparr>)))
                else ([], Resolved item))
         else ([], Resolved item))"

text \<open>Lines 168-242: the loop over \<^verbatim>\<open>emailsList\<close>, which pushes to \<^verbatim>\<open>returnData\<close>.\<close>

fun forEmails ::
  "ImapFlow \<Rightarrow> bool \<Rightarrow> bool \<Rightarrow> bool \<Rightarrow> item_json list \<Rightarrow> email list \<Rightarrow> item_json list io" where
  "forEmails client ia it ih returnData [] = ([], Resolved returnData)"
| "forEmails client ia it ih returnData (e # rest) =
     await_then (processEmail client ia it ih e)
       (\<lambda>item. forEmails client ia it ih (returnData @ [item]) rest)"

text \<open>
  The whole action. The mailbox path, the search object and \<^verbatim>\<open>includeParts\<close> come from
  the node parameters, read by helpers outside this file.
\<close>

definition executeImapAction ::
  "ImapFlow \<Rightarrow> string \<Rightarrow> string \<Rightarrow> EmailParts list \<Rightarrow> item_json list io" where
  "executeImapAction client mailboxPath searchObject includeParts =
     await_then ([CallMailboxOpen mailboxPath], mailboxOpen client mailboxPath)
       (\<lambda>_. let fetchQuery = buildFetchQuery includeParts;
                includeAttachmentsInfo = AttachmentsInfo \<in> set includeParts;
                includeTextContent = TextContent \<in> set includeParts;
                includeHtmlContent = HtmlContent \<in> set includeParts
            in await_then
                 (case forAwaitFetch [] (fetch client searchObject fetchQuery) of
                    (t, r) \<Rightarrow> (CallFetch fetchQuery # t, r))
                 (\<lambda>emailsList.
                    forEmails client includeAttachmentsInfo includeTextContent
                      includeHtmlContent [] emailsList))"

section \<open>Notions used to state the properties\<close>

text \<open>
  The nodes of a tree in pre-order, depth first, the children in the order of
  \<^verbatim>\<open>childNodes\<close>: a node, then the subtrees of its children from first to last. The
  descendants of a node are the nodes below it, in that order.
\<close>

fun preorder :: "node \<Rightarrow> node list"
  and preorder_list :: "node list \<Rightarrow> node list" where
  "preorder (Node p t e s d dp None) = [Node p t e s d dp None]"
| "preorder (Node p t e s d dp (Some cs)) = Node p t e s d dp (Some cs) # preorder_list cs"
| "preorder_list [] = []"
| "preorder_list (c # cs) = preorder c @ preorder_list cs"

definition descendants :: "node \<Rightarrow> node list" where
  "descendants n = (case childNodes n of None \<Rightarrow> [] | Some cs \<Rightarrow> preorder_list cs)"

text \<open>What one visited node contributes: its descriptor when it has a size, else nothing.\<close>

definition emitted :: "node \<Rightarrow> EmailPartInfo list" where
  "emitted n = (case node_size n of None \<Rightarrow> [] | Some sz \<Rightarrow> [partInfoOf n sz])"

definition has_size :: "node \<Rightarrow> bool" where
  "has_size n = (node_size n \<noteq> None)"

text \<open>A node has children when \<^verbatim>\<open>childNodes\<close> is there and is not empty.\<close>

definition has_children :: "node \<Rightarrow> bool" where
  "has_children n = (case childNodes n of None \<Rightarrow> False | Some cs \<Rightarrow> cs \<noteq> [])"

definition leaf_with_size :: "node \<Rightarrow> bool" where
  "leaf_with_size n = (\<not> has_children n \<and> has_size n)"

text \<open>
  The descriptors that count as attachments, the attachment record made from one, and
  the part id of the last descriptor of a given type that is not an attachment (\<open>dflt\<close>
  when there is none).
\<close>

definition is_attachment :: "EmailPartInfo \<Rightarrow> bool" where
  "is_attachment p = (part_disposition p = Some ''attachment'')"

definition attachmentOf :: "EmailPartInfo \<Rightarrow> attachment" where
  "attachmentOf p =
     \<lparr>att_partId = partId p, att_filename = filename p, att_type = part_type p,
      att_encoding = part_encoding p, att_size = part_size p\<rparr>"

definition last_partId :: "string \<Rightarrow> string option \<Rightarrow> EmailPartInfo list \<Rightarrow> string option" where
  "last_partId mime dflt ps =
     (let matching = filter (\<lambda>p. \<not> is_attachment p \<and> part_type p = mime) ps
      in if matching = [] then dflt else partId (last matching))"

text \<open>
  Reading a trace: which events are download requests, and whether every download
  request comes after the bulk fetch was read to its end (\<open>drained\<close> tells whether the end
  was already seen).
\<close>

fun is_download :: "event \<Rightarrow> bool" where
  "is_download (CallDownload u p) = True"
| "is_download ev = False"

fun downloads_after_drain :: "bool \<Rightarrow> event list \<Rightarrow> bool" where
  "downloads_after_drain drained [] = True"
| "downloads_after_drain drained (FetchDone # evs) = downloads_after_drain True evs"
| "downloads_after_drain drained (CallDownload u p # evs) =
     (drained \<and> downloads_after_drain drained evs)"
| "downloads_after_drain drained (ev # evs) = downloads_after_drain drained evs"

text \<open>
  The outcome of fetching the content of part \<open>p\<close> of message \<open>u\<close>: the download, then
  the reading of its stream.
\<close>

definition contentOf :: "ImapFlow \<Rightarrow> string \<Rightarrow> string \<Rightarrow> js_text promise" where
  "contentOf client u p =
     (case download client u p of
        Resolved content \<Rightarrow> streamToString content
      | Rejected err \<Rightarrow> Rejected err
      | Pending \<Rightarrow> Pending)"

section \<open>Example messages and clients\<close>

text \<open>
  A multipart message with a text part and an attached message: the attached message
  (type \<^verbatim>\<open>message/rfc822\<close>) has a size and a child, its own body.
\<close>

definition forwarded_body :: node where
  "forwarded_body =
     Node (Some ''2.1'') ''text/plain'' (Some ''7bit'') (Some 20) None None None"

definition forwarded_message :: node where
  "forwarded_message =
     Node (Some ''2'') ''message/rfc822'' (Some ''7bit'') (Some 500) None None
       (Some [forwarded_body])"

definition cover_note :: node where
  "cover_note = Node (Some ''1'') ''text/plain'' (Some ''7bit'') (Some 10) None None None"

definition forwarding_mail :: node where
  "forwarding_mail =
     Node None ''multipart/mixed'' None None None None
       (Some [cover_note, forwarded_message])"

text \<open>
  Two more messages. The first has an alternative pair, an attached PDF and a second
  plain-text part after it; the second is a single-part plain-text message.
\<close>

definition report_mail :: node where
  "report_mail =
     Node None ''multipart/mixed'' None None None None
       (Some [Node (Some ''1'') ''multipart/alternative'' None None None None
                (Some [Node (Some ''1.1'') ''text/plain'' (Some ''7bit'') (Some 10)
                         None None None,
                       Node (Some ''1.2'') ''text/html'' (Some ''7bit'') (Some 20)
                         None None None]),
              Node (Some ''2'') ''application/pdf'' (Some ''base64'') (Some 500)
                (Some ''attachment'') (Some [''filename'' \<mapsto> ''a.pdf'']) None,
              Node (Some ''3'') ''text/plain'' (Some ''7bit'') (Some 30)
                (Some ''inline'') None None])"

definition plain_mail :: node where
  "plain_mail = Node None ''text/plain'' (Some ''7bit'') (Some 42) None None None"

text \<open>
  Clients for the examples. All of them open the mailbox. The first serves two messages,
  a multipart one and one without body structure, and every download gives the two bytes
  of \<^verbatim>\<open>hi\<close>. The second serves five single-part plain-text messages and rejects the
  download for the third. The third breaks off the bulk fetch after the first message. The
  fourth serves the five messages and its download streams fail after the first chunk.
\<close>

definition hi_stream :: "stream_event list" where
  "hi_stream = [Data [0x68], Data [0x69], EndEv]"

definition connection_lost :: error where
  "connection_lost = Error ''connection lost''"

definition two_messages :: "email list" where
  "two_messages =
     [\<lparr>uid = 7, bodyStructure = Some report_mail, envelope = ''report''\<rparr>,
      \<lparr>uid = 8, bodyStructure = None, envelope = ''note''\<rparr>]"

definition five_messages :: "email list" where
  "five_messages =
     map (\<lambda>n. \<lparr>uid = n, bodyStructure = Some plain_mail, envelope = ''hello''\<rparr>)
       [1, 2, 3, 4, 5]"

definition good_client :: ImapFlow where
  "good_client =
     \<lparr>mailboxOpen = (\<lambda>path. Resolved ()),
      fetch = (\<lambda>search query. map Yield two_messages @ [Return]),
      download = (\<lambda>u p. Resolved hi_stream)\<rparr>"

definition third_download_fails :: ImapFlow where
  "third_download_fails =
     \<lparr>mailboxOpen = (\<lambda>path. Resolved ()),
      fetch = (\<lambda>search query. map Yield five_messages @ [Return]),
      download = (\<lambda>u p. if u = ''3'' then Rejected connection_lost
                          else Resolved hi_stream)\<rparr>"

definition fetch_breaks :: ImapFlow where
  "fetch_breaks =
     \<lparr>mailboxOpen = (\<lambda>path. Resolved ()),
      fetch = (\<lambda>search query. map Yield (take 1 five_messages) @ [Throw connection_lost]),
      download = (\<lambda>u p. Resolved hi_stream)\<rparr>"

definition streams_break :: ImapFlow where
  "streams_break =
     \<lparr>mailboxOpen = (\<lambda>path. Resolved ()),
      fetch = (\<lambda>search query. map Yield five_messages @ [Return]),
      download = (\<lambda>u p. Resolved [Data [0x68], ErrorEv connection_lost])\<rparr>"

text \<open>
  The two records of the first client's listing when the attachments info and the text
  content are requested.
\<close>

definition report_record :: item_json where
  "report_record =
     \<lparr>json_email = \<lparr>uid = 7, bodyStructure = Some report_mail, envelope = ''report''\<rparr>,
      json_attachmentsInfo =
        Some [\<lparr>att_partId = Some ''2'', att_filename = Some ''a.pdf'',
               att_type = ''application/pdf'', att_encoding = Some ''base64'',
               att_size = 500\<rparr>],
      json_textContent = Some [0x68, 0x69], json_htmlContent = None\<rparr>"

definition note_record :: item_json where
  "note_record =
     \<lparr>json_email = \<lparr>uid = 8, bodyStructure = None, envelope = ''note''\<rparr>,
      json_attachmentsInfo = Some [], json_textContent = None, json_htmlContent = None\<rparr>"

section \<open>The structure walker\<close>

lemma walk_descendants:
  "getEmailPartsInfoRecursive n = concat (map emitted (descendants n))"
  "forChildNodes partsInfo cs = partsInfo @ concat (map emitted (preorder_list cs))"
proof (induction n and partsInfo cs rule: getEmailPartsInfoRecursive_forChildNodes.induct)
  case (4 partsInfo childNode rest)
  then show ?case
    by (cases childNode)
       (auto simp: emitted_def descendants_def Let_def split: option.splits)
qed (simp_all add: descendants_def)

lemma length_emitted: "length (concat (map emitted ns)) = length (filter has_size ns)"
  by (induction ns) (auto simp: emitted_def has_size_def split: option.splits)

lemma emitted_keys:
  "map (\<lambda>i. (partId i, Some (part_size i))) (concat (map emitted ns)) =
   map (\<lambda>c. (part c, node_size c)) (filter has_size ns)"
  by (induction ns)
     (auto simp: emitted_def has_size_def partInfoOf_def Let_def split: option.splits)

lemma walk_no_childNodes: "childNodes n = None \<Longrightarrow> getEmailPartsInfoRecursive n = []"
  by (cases n) simp

lemmas example_trees =
  forwarding_mail_def cover_note_def forwarded_message_def forwarded_body_def
  report_mail_def plain_mail_def

text \<open>
  C1, as stated, fails. In the message with an attached message the walker emits three
  descriptors, for the parts 1, 2 and 2.1, while the tree has two nodes with no children
  and a size: part 2, the attached message, has a child and is in the output all the
  same.
\<close>

theorem walker_container_emitted_counterexample:
  "length (getEmailPartsInfoRecursive forwarding_mail) = 3
   \<and> length (filter leaf_with_size (preorder forwarding_mail)) = 2
   \<and> map partId (getEmailPartsInfoRecursive forwarding_mail)
       = [Some ''1'', Some ''2'', Some ''2.1'']
   \<and> has_children forwarded_message"
  by (simp add: example_trees leaf_with_size_def has_children_def has_size_def
      partInfoOf_def)

text \<open>
  C1, amended. For every tree the output has exactly one descriptor per node below the
  root that has a size, in the same order and with that node's part id and size, whether
  or not the node has children; the root is not emitted, and a node without a size is left
  out. The function is total: no input makes it fail. When no node below the root has
  both children and a size, the emitted nodes are the nodes below the root with no
  children and a size.
\<close>

theorem walker_emits_sized_descendants:
  "length (getEmailPartsInfoRecursive n) = length (filter has_size (descendants n))
   \<and> map (\<lambda>i. (partId i, Some (part_size i))) (getEmailPartsInfoRecursive n)
       = map (\<lambda>c. (part c, node_size c)) (filter has_size (descendants n))
   \<and> (list_all (\<lambda>c. \<not> (has_children c \<and> has_size c)) (descendants n) \<longrightarrow>
        filter has_size (descendants n) = filter leaf_with_size (descendants n))"
proof (intro conjI impI)
  show "length (getEmailPartsInfoRecursive n) = length (filter has_size (descendants n))"
    by (simp add: walk_descendants(1) length_emitted)
  show "map (\<lambda>i. (partId i, Some (part_size i))) (getEmailPartsInfoRecursive n)
        = map (\<lambda>c. (part c, node_size c)) (filter has_size (descendants n))"
    by (simp add: walk_descendants(1) emitted_keys)
next
  assume "list_all (\<lambda>c. \<not> (has_children c \<and> has_size c)) (descendants n)"
  then show "filter has_size (descendants n) = filter leaf_with_size (descendants n)"
    by (intro filter_cong refl) (auto simp: list_all_iff leaf_with_size_def)
qed

theorem walker_emits_sized_descendants_witness:
  "list_all (\<lambda>c. \<not> (has_children c \<and> has_size c)) (descendants report_mail)
   \<and> length (getEmailPartsInfoRecursive report_mail) = 4
   \<and> length (filter leaf_with_size (descendants report_mail)) = 4"
proof -
  have inv: "list_all (\<lambda>c. \<not> (has_children c \<and> has_size c)) (descendants report_mail)"
    by (simp add: report_mail_def descendants_def has_children_def has_size_def)
  have four: "length (filter leaf_with_size (descendants report_mail)) = 4"
    by (simp add: report_mail_def descendants_def leaf_with_size_def has_children_def
        has_size_def)
  from walker_emits_sized_descendants [of report_mail] inv four show ?thesis
    by simp
qed

text \<open>
  C7. The walker emits the descriptors in pre-order, depth first, the children in the
  order of \<^verbatim>\<open>childNodes\<close>: its output is the concatenation, over the nodes below the
  root in that order, of what each node contributes.
\<close>

theorem walker_preorder:
  "getEmailPartsInfoRecursive n = concat (map emitted (descendants n))"
  by (rule walk_descendants(1))

section \<open>Classification of the parts\<close>

lemma forPartsInfo_result:
  "forPartsInfo st ps =
     \<lparr>textPartId = last_partId ''text/plain'' (textPartId st) ps,
      htmlPartId = last_partId ''text/html'' (htmlPartId st) ps,
      attachmentsInfo = attachmentsInfo st @ map attachmentOf (filter is_attachment ps)\<rparr>"
proof (induction ps arbitrary: st)
  case Nil
  show ?case by (simp add: last_partId_def)
next
  case (Cons p ps)
  show ?case
    by (simp add: Cons.IH last_partId_def attachmentOf_def is_attachment_def Let_def)
qed

lemma analyzeBody_attachments:
  "attachmentsInfo (analyzeBody True bs) =
     (case bs of
        None \<Rightarrow> []
      | Some root \<Rightarrow>
          map attachmentOf (filter is_attachment (getEmailPartsInfoRecursive root)))"
  by (auto simp: analyzeBody_def Let_def forPartsInfo_result walk_no_childNodes
      split: option.splits)

lemma walk_report_mail:
  "getEmailPartsInfoRecursive report_mail =
     [\<lparr>partId = Some ''1.1'', filename = None, part_type = ''text/plain'',
       part_encoding = Some ''7bit'', part_size = 10, part_disposition = None\<rparr>,
      \<lparr>partId = Some ''1.2'', filename = None, part_type = ''text/html'',
       part_encoding = Some ''7bit'', part_size = 20, part_disposition = None\<rparr>,
      \<lparr>partId = Some ''2'', filename = Some ''a.pdf'', part_type = ''application/pdf'',
       part_encoding = Some ''base64'', part_size = 500,
       part_disposition = Some ''attachment''\<rparr>,
      \<lparr>partId = Some ''3'', filename = None, part_type = ''text/plain'',
       part_encoding = Some ''7bit'', part_size = 30, part_disposition = Some ''inline''\<rparr>]"
  by (simp add: report_mail_def partInfoOf_def)

text \<open>
  C2. For a root that has \<^verbatim>\<open>childNodes\<close> the classification runs over the walker's
  descriptors in their order: the attachments list is the list of the descriptors with
  disposition \<^verbatim>\<open>attachment\<close>, in that order, each with its part id, file name, type,
  encoding and size; \<^verbatim>\<open>textPartId\<close> is the part id of the last descriptor that is not
  an attachment and has type \<^verbatim>\<open>text/plain\<close>, \<^verbatim>\<open>htmlPartId\<close> that of the last one of
  type \<^verbatim>\<open>text/html\<close>, and each is null when there is no such descriptor.
\<close>

theorem classify_multipart:
  "childNodes root = Some cs \<Longrightarrow>
   analyzeBody True (Some root) =
     \<lparr>textPartId = last_partId ''text/plain'' None (getEmailPartsInfoRecursive root),
      htmlPartId = last_partId ''text/html'' None (getEmailPartsInfoRecursive root),
      attachmentsInfo =
        map attachmentOf (filter is_attachment (getEmailPartsInfoRecursive root))\<rparr>"
  by (simp add: analyzeBody_def forPartsInfo_result)

theorem classify_multipart_witness:
  "childNodes report_mail \<noteq> None
   \<and> analyzeBody True (Some report_mail) =
       \<lparr>textPartId = Some ''3'', htmlPartId = Some ''1.2'',
        attachmentsInfo =
          [\<lparr>att_partId = Some ''2'', att_filename = Some ''a.pdf'',
            att_type = ''application/pdf'', att_encoding = Some ''base64'',
            att_size = 500\<rparr>]\<rparr>"
proof -
  obtain cs where cs: "childNodes report_mail = Some cs"
    by (simp add: report_mail_def)
  from classify_multipart [OF cs] cs show ?thesis
    by (simp add: walk_report_mail last_partId_def is_attachment_def attachmentOf_def)
qed

text \<open>
  C8. For a root without \<^verbatim>\<open>childNodes\<close> (a single-part message) the classification
  gives \<^verbatim>\<open>textPartId = "TEXT"\<close> exactly when the type is \<^verbatim>\<open>text/plain\<close>,
  \<^verbatim>\<open>htmlPartId = "TEXT"\<close> exactly when it is \<^verbatim>\<open>text/html\<close>, null otherwise, and no
  attachments: a \<^verbatim>\<open>text/plain\<close> root has \<^verbatim>\<open>textPartId = "TEXT"\<close>, no
  \<^verbatim>\<open>htmlPartId\<close> and an empty attachments list.
\<close>

theorem classify_single_part:
  "childNodes root = None \<Longrightarrow>
   analyzeBody True (Some root) =
     \<lparr>textPartId = (if node_type root = ''text/plain'' then Some ''TEXT'' else None),
      htmlPartId = (if node_type root = ''text/html'' then Some ''TEXT'' else None),
      attachmentsInfo = []\<rparr>"
  by (simp add: analyzeBody_def)

theorem classify_single_part_witness:
  "childNodes plain_mail = None
   \<and> analyzeBody True (Some plain_mail) =
       \<lparr>textPartId = Some ''TEXT'', htmlPartId = None, attachmentsInfo = []\<rparr>"
proof -
  have single: "childNodes plain_mail = None"
    by (simp add: plain_mail_def)
  have "node_type plain_mail = ''text/plain''"
    by (simp add: plain_mail_def)
  with classify_single_part [OF single] single show ?thesis
    by simp
qed

section \<open>The retrieval descriptor\<close>

lemma buildFetchQuery_fields:
  "q_uid (buildFetchQuery ps)"
  "q_envelope (buildFetchQuery ps)"
  "q_bodyStructure (buildFetchQuery ps) =
     (BodyStructure \<in> set ps \<or> AttachmentsInfo \<in> set ps \<or> TextContent \<in> set ps
      \<or> HtmlContent \<in> set ps)"
  "q_flags (buildFetchQuery ps) = (Flags \<in> set ps)"
  "q_size (buildFetchQuery ps) = (Size \<in> set ps)"
  by (simp_all add: buildFetchQuery_def Let_def)

text \<open>
  C9. For every list of inclusion flags the retrieval descriptor requests \<^verbatim>\<open>uid\<close> and
  \<^verbatim>\<open>envelope\<close>, and it requests \<^verbatim>\<open>bodyStructure\<close> whenever the attachments info, the
  plain-text content or the HTML content is requested, whether or not the body structure
  flag itself was selected.
\<close>

theorem fetchQuery_requests_bodyStructure_for_content:
  "q_uid (buildFetchQuery ps) \<and> q_envelope (buildFetchQuery ps)
   \<and> (AttachmentsInfo \<in> set ps \<or> TextContent \<in> set ps \<or> HtmlContent \<in> set ps
        \<longrightarrow> q_bodyStructure (buildFetchQuery ps))"
  by (simp add: buildFetchQuery_fields)

theorem fetchQuery_requests_bodyStructure_for_content_witness:
  "TextContent \<in> set [TextContent, Size] \<and> BodyStructure \<notin> set [TextContent, Size]
   \<and> q_uid (buildFetchQuery [TextContent, Size])
   \<and> q_envelope (buildFetchQuery [TextContent, Size])
   \<and> q_bodyStructure (buildFetchQuery [TextContent, Size])"
  using fetchQuery_requests_bodyStructure_for_content [of "[TextContent, Size]"]
  by simp

section \<open>Awaiting, downloads and traces\<close>

lemma fst_await_then:
  "fst (await_then m f) =
     (case snd m of
        Resolved a \<Rightarrow> fst m @ fst (f a)
      | Rejected err \<Rightarrow> fst m
      | Pending \<Rightarrow> fst m)"
  by (cases m) (auto simp: await_then_def split: promise.splits prod.splits)

lemma snd_await_then:
  "snd (await_then m f) =
     (case snd m of
        Resolved a \<Rightarrow> snd (f a)
      | Rejected err \<Rightarrow> Rejected err
      | Pending \<Rightarrow> Pending)"
  by (cases m) (auto simp: await_then_def split: promise.splits prod.splits)

lemma downloadContent_eq:
  "downloadContent client e p =
     ([CallDownload (uid_toString (uid e)) p], contentOf client (uid_toString (uid e)) p)"
  by (simp add: downloadContent_def contentOf_def await_then_def split: promise.splits)

lemma uid_toString_digit: "n < 10 \<Longrightarrow> uid_toString n = [''0123456789'' ! n]"
  by (simp add: uid_toString.simps)

lemma drained_stays: "downloads_after_drain True t"
proof (induction t)
  case (Cons ev t)
  then show ?case by (cases ev) auto
qed simp

lemma downloads_after_drain_append:
  "filter is_download t1 = [] \<Longrightarrow>
   downloads_after_drain d (t1 @ t2) = downloads_after_drain (d \<or> FetchDone \<in> set t1) t2"
proof (induction t1 arbitrary: d)
  case (Cons ev t1)
  then show ?case by (cases ev) (auto simp: drained_stays split: if_splits)
qed simp

lemma early_download_detected:
  "\<not> downloads_after_drain False
       [CallFetch q, FetchNext 1, CallDownload ''1'' ''TEXT'', FetchNext 2, FetchDone]"
  by simp

section \<open>The bulk fetch loop\<close>

lemma forAwaitFetch_trace: "filter is_download (fst (forAwaitFetch acc evs)) = []"
  by (induction acc evs rule: forAwaitFetch.induct) (auto split: prod.splits)

lemma forAwaitFetch_done:
  "snd (forAwaitFetch acc evs) = Resolved es \<Longrightarrow>
   FetchDone \<in> set (fst (forAwaitFetch acc evs))"
  by (induction acc evs rule: forAwaitFetch.induct) (auto split: prod.splits)

lemma forAwaitFetch_Resolved:
  "snd (forAwaitFetch acc evs) = Resolved es \<Longrightarrow>
   \<exists>ys rest. evs = map Yield ys @ Return # rest \<and> es = acc @ ys"
proof (induction acc evs rule: forAwaitFetch.induct)
  case (2 emailsList e evs)
  then have "snd (forAwaitFetch (emailsList @ [e]) evs) = Resolved es"
    by (simp split: prod.splits)
  from 2(1)[OF this] obtain ys rest where
    "evs = map Yield ys @ Return # rest" "es = (emailsList @ [e]) @ ys" by blast
  then show ?case
    by (intro exI[of _ "e # ys"] exI[of _ rest]) simp
next
  case (3 emailsList evs)
  then show ?case by (intro exI[of _ "[]"] exI[of _ evs]) simp
qed simp_all

lemma forAwaitFetch_Throw:
  "snd (forAwaitFetch acc (map Yield ys @ Throw err # rest)) = Rejected err"
  by (induction ys arbitrary: acc) (simp_all add: case_prod_beta)

lemma forAwaitFetch_Return:
  "forAwaitFetch acc (map Yield ys @ Return # rest) =
     (map (\<lambda>e. FetchNext (uid e)) ys @ [FetchDone], Resolved (acc @ ys))"
  by (induction ys arbitrary: acc) simp_all

section \<open>One message\<close>

lemma processEmail_no_content:
  "\<not> it \<Longrightarrow> \<not> ih \<Longrightarrow> fst (processEmail client ia it ih e) = []"
  by (simp add: processEmail_def Let_def)

lemma processEmail_Resolved:
  assumes "snd (processEmail client ia it ih e) = Resolved r"
  shows "json_email r = e"
    and "json_attachmentsInfo r =
           (if ia then Some (attachmentsInfo (analyzeBody True (bodyStructure e))) else None)"
    and "(json_textContent r \<noteq> None) =
           (it \<and> truthy (textPartId (analyzeBody True (bodyStructure e))))"
    and "(json_htmlContent r \<noteq> None) =
           (ih \<and> truthy (htmlPartId (analyzeBody True (bodyStructure e))))"
  using assms
  by (auto simp: processEmail_def Let_def snd_await_then downloadContent_eq
      split: promise.splits if_splits)

lemma processEmail_fail:
  "CallDownload u p \<in> set (fst (processEmail client ia it ih e)) \<Longrightarrow>
   contentOf client u p = Rejected err \<Longrightarrow>
   snd (processEmail client ia it ih e) = Rejected err"
  by (auto simp: processEmail_def Let_def snd_await_then fst_await_then downloadContent_eq
      split: promise.splits if_splits)

section \<open>The loop over the messages\<close>

lemma forEmails_no_content:
  "\<not> it \<Longrightarrow> \<not> ih \<Longrightarrow> fst (forEmails client ia it ih acc es) = []"
  by (induction es arbitrary: acc)
     (auto simp: fst_await_then processEmail_no_content split: promise.splits)

lemma forEmails_Resolved:
  "snd (forEmails client ia it ih acc es) = Resolved rs \<Longrightarrow>
   \<exists>items. rs = acc @ items \<and>
     list_all2 (\<lambda>e r. snd (processEmail client ia it ih e) = Resolved r) es items"
proof (induction es arbitrary: acc)
  case Nil
  then show ?case by simp
next
  case (Cons e es)
  from Cons.prems obtain item where
    item: "snd (processEmail client ia it ih e) = Resolved item"
    and rest: "snd (forEmails client ia it ih (acc @ [item]) es) = Resolved rs"
    by (auto simp: snd_await_then split: promise.splits)
  from Cons.IH[OF rest] obtain items where
    "rs = (acc @ [item]) @ items"
    "list_all2 (\<lambda>e r. snd (processEmail client ia it ih e) = Resolved r) es items"
    by blast
  with item show ?case
    by (intro exI[of _ "item # items"]) simp
qed

lemma forEmails_fail:
  "CallDownload u p \<in> set (fst (forEmails client ia it ih acc es)) \<Longrightarrow>
   contentOf client u p = Rejected err \<Longrightarrow>
   snd (forEmails client ia it ih acc es) = Rejected err"
proof (induction es arbitrary: acc)
  case Nil
  then show ?case by simp
next
  case (Cons e es)
  show ?case
  proof (cases "snd (processEmail client ia it ih e)")
    case (Resolved item)
    with Cons.prems(1) consider
      "CallDownload u p \<in> set (fst (processEmail client ia it ih e))"
      | "CallDownload u p \<in> set (fst (forEmails client ia it ih (acc @ [item]) es))"
      by (auto simp: fst_await_then)
    then show ?thesis
    proof cases
      case 1
      from processEmail_fail[OF 1 Cons.prems(2)] Resolved show ?thesis by simp
    next
      case 2
      from Cons.IH[OF 2 Cons.prems(2)] Resolved show ?thesis
        by (simp add: snd_await_then)
    qed
  next
    case (Rejected x)
    with Cons.prems(1) have "CallDownload u p \<in> set (fst (processEmail client ia it ih e))"
      by (simp add: fst_await_then)
    from processEmail_fail[OF this Cons.prems(2)] show ?thesis
      by (simp add: snd_await_then)
  next
    case Pending
    with Cons.prems(1) have "CallDownload u p \<in> set (fst (processEmail client ia it ih e))"
      by (simp add: fst_await_then)
    from processEmail_fail[OF this Cons.prems(2)] Pending show ?thesis by simp
  qed
qed

section \<open>The whole action\<close>

lemma executeImapAction_fst:
  "fst (executeImapAction client path search ps) =
     CallMailboxOpen path #
     (case mailboxOpen client path of
        Resolved a \<Rightarrow>
          CallFetch (buildFetchQuery ps) #
          fst (forAwaitFetch [] (fetch client search (buildFetchQuery ps))) @
          (case snd (forAwaitFetch [] (fetch client search (buildFetchQuery ps))) of
             Resolved es \<Rightarrow>
               fst (forEmails client (AttachmentsInfo \<in> set ps) (TextContent \<in> set ps)
                      (HtmlContent \<in> set ps) [] es)
           | Rejected err \<Rightarrow> []
           | Pending \<Rightarrow> [])
      | Rejected err \<Rightarrow> []
      | Pending \<Rightarrow> [])"
  by (auto simp: executeImapAction_def Let_def fst_await_then
      split: promise.splits prod.splits)

lemma executeImapAction_snd:
  "snd (executeImapAction client path search ps) =
     (case mailboxOpen client path of
        Resolved a \<Rightarrow>
          (case snd (forAwaitFetch [] (fetch client search (buildFetchQuery ps))) of
             Resolved es \<Rightarrow>
               snd (forEmails client (AttachmentsInfo \<in> set ps) (TextContent \<in> set ps)
                      (HtmlContent \<in> set ps) [] es)
           | Rejected err \<Rightarrow> Rejected err
           | Pending \<Rightarrow> Pending)
      | Rejected err \<Rightarrow> Rejected err
      | Pending \<Rightarrow> Pending)"
  by (auto simp: executeImapAction_def Let_def snd_await_then
      split: promise.splits prod.splits)

lemma executeImapAction_Resolved:
  assumes "snd (executeImapAction client path search ps) = Resolved rs"
  shows "\<exists>es rest.
           fetch client search (buildFetchQuery ps) = map Yield es @ Return # rest
           \<and> list_all2
                (\<lambda>e r. snd (processEmail client (AttachmentsInfo \<in> set ps)
                             (TextContent \<in> set ps) (HtmlContent \<in> set ps) e) = Resolved r)
                es rs"
proof -
  from assms obtain es where
    es: "snd (forAwaitFetch [] (fetch client search (buildFetchQuery ps))) = Resolved es"
    and run: "snd (forEmails client (AttachmentsInfo \<in> set ps) (TextContent \<in> set ps)
                (HtmlContent \<in> set ps) [] es) = Resolved rs"
    by (auto simp: executeImapAction_snd split: promise.splits)
  from forAwaitFetch_Resolved[OF es] obtain rest where
    "fetch client search (buildFetchQuery ps) = map Yield es @ Return # rest"
    by auto
  with forEmails_Resolved[OF run] show ?thesis by auto
qed

lemma executeImapAction_fail:
  assumes "CallDownload u p \<in> set (fst (executeImapAction client path search ps))"
    and "contentOf client u p = Rejected err"
  shows "snd (executeImapAction client path search ps) = Rejected err"
proof -
  let ?F = "forAwaitFetch [] (fetch client search (buildFetchQuery ps))"
  have no_dl: "CallDownload u p \<notin> set (fst ?F)"
    using forAwaitFetch_trace[of "[]" "fetch client search (buildFetchQuery ps)"]
    by (auto simp: filter_empty_conv)
  obtain a where opened: "mailboxOpen client path = Resolved a"
    using assms(1) by (cases "mailboxOpen client path") (simp_all add: executeImapAction_fst)
  obtain es where es: "snd ?F = Resolved es"
    using assms(1) no_dl opened by (cases "snd ?F") (simp_all add: executeImapAction_fst)
  have dl: "CallDownload u p \<in> set (fst (forEmails client (AttachmentsInfo \<in> set ps)
               (TextContent \<in> set ps) (HtmlContent \<in> set ps) [] es))"
    using assms(1) no_dl opened es by (simp add: executeImapAction_fst)
  from forEmails_fail[OF dl assms(2)] opened es show ?thesis
    by (simp add: executeImapAction_snd)
qed

section \<open>Runs of the example clients\<close>

lemma report_mail_multipart: "(childNodes report_mail = None) = False"
  by (simp add: report_mail_def)

lemma good_client_run:
  "executeImapAction good_client ''INBOX'' ''ALL'' [AttachmentsInfo, TextContent] =
     ([CallMailboxOpen ''INBOX'',
       CallFetch (buildFetchQuery [AttachmentsInfo, TextContent]),
       FetchNext 7, FetchNext 8, FetchDone, CallDownload ''7'' ''3''],
      Resolved
        [\<lparr>json_email = \<lparr>uid = 7, bodyStructure = Some report_mail, envelope = ''report''\<rparr>,
          json_attachmentsInfo =
            Some [\<lparr>att_partId = Some ''2'', att_filename = Some ''a.pdf'',
                   att_type = ''application/pdf'', att_encoding = Some ''base64'',
                   att_size = 500\<rparr>],
          json_textContent = Some [0x68, 0x69], json_htmlContent = None\<rparr>,
         \<lparr>json_email = \<lparr>uid = 8, bodyStructure = None, envelope = ''note''\<rparr>,
          json_attachmentsInfo = Some [], json_textContent = None,
          json_htmlContent = None\<rparr>])"
  by (simp add: executeImapAction_def await_then_def good_client_def forAwaitFetch_Return
      two_messages_def processEmail_def downloadContent_def streamToString_def
      hi_stream_def toString_utf8_def walk_report_mail Let_def truthy_def analyzeBody_def
      forPartsInfo_result last_partId_def is_attachment_def attachmentOf_def
      uid_toString_digit report_mail_multipart)

lemma good_client_metadata_only:
  "fst (executeImapAction good_client ''INBOX'' ''ALL'' [BodyStructure, Flags]) =
     [CallMailboxOpen ''INBOX'', CallFetch (buildFetchQuery [BodyStructure, Flags]),
      FetchNext 7, FetchNext 8, FetchDone]"
  by (simp add: executeImapAction_def await_then_def good_client_def forAwaitFetch_Return
      two_messages_def processEmail_def Let_def)

lemma third_download_fails_trace:
  "fst (executeImapAction third_download_fails ''INBOX'' ''ALL'' [TextContent]) =
     [CallMailboxOpen ''INBOX'', CallFetch (buildFetchQuery [TextContent]),
      FetchNext 1, FetchNext 2, FetchNext 3, FetchNext 4, FetchNext 5, FetchDone,
      CallDownload ''1'' ''TEXT'', CallDownload ''2'' ''TEXT'', CallDownload ''3'' ''TEXT'']"
  by (simp add: executeImapAction_def await_then_def third_download_fails_def
      forAwaitFetch_Return five_messages_def processEmail_def downloadContent_def
      streamToString_def hi_stream_def toString_utf8_def Let_def truthy_def analyzeBody_def
      plain_mail_def uid_toString_digit)

lemma streams_break_trace:
  "fst (executeImapAction streams_break ''INBOX'' ''ALL'' [TextContent]) =
     [CallMailboxOpen ''INBOX'', CallFetch (buildFetchQuery [TextContent]),
      FetchNext 1, FetchNext 2, FetchNext 3, FetchNext 4, FetchNext 5, FetchDone,
      CallDownload ''1'' ''TEXT'']"
  by (simp add: executeImapAction_def await_then_def streams_break_def
      forAwaitFetch_Return five_messages_def processEmail_def downloadContent_def
      streamToString_def Let_def truthy_def analyzeBody_def plain_mail_def
      uid_toString_digit)

section \<open>Properties of the listing\<close>

text \<open>
  C3. In every run, whatever the client answers, every download request comes after the
  bulk fetch was read to its end: the trace of the action has no \<open>CallDownload\<close> before
  \<open>FetchDone\<close>.
\<close>

theorem fetch_drained_before_downloads:
  "downloads_after_drain False (fst (executeImapAction client path search ps))"
proof (cases "mailboxOpen client path")
  case (Resolved a)
  let ?F = "forAwaitFetch [] (fetch client search (buildFetchQuery ps))"
  let ?pre = "CallMailboxOpen path # CallFetch (buildFetchQuery ps) # fst ?F"
  have pre: "filter is_download ?pre = []"
    by (simp add: forAwaitFetch_trace)
  show ?thesis
  proof (cases "snd ?F")
    case (Resolved es)
    then have "FetchDone \<in> set ?pre"
      by (simp add: forAwaitFetch_done)
    with downloads_after_drain_append [OF pre, of False]
      \<open>mailboxOpen client path = Resolved a\<close> Resolved
    show ?thesis
      by (simp add: executeImapAction_fst drained_stays)
  next
    case (Rejected err)
    with downloads_after_drain_append [OF pre, of False "[]"]
      \<open>mailboxOpen client path = Resolved a\<close>
    show ?thesis
      by (simp add: executeImapAction_fst)
  next
    case Pending
    with downloads_after_drain_append [OF pre, of False "[]"]
      \<open>mailboxOpen client path = Resolved a\<close>
    show ?thesis
      by (simp add: executeImapAction_fst)
  qed
qed (simp_all add: executeImapAction_fst)

text \<open>
  C4. A transport error aborts the listing, and a listing that returns is complete. If
  the bulk fetch throws after any number of messages, the action is rejected with that
  error; if a download that the action requested is rejected, or its stream emits an
  error, the action is rejected with that error, however many messages were processed
  before. When the action returns a list, the list has one record for every message of
  the bulk fetch, in the order of the fetch.
\<close>

theorem transport_error_aborts_listing:
  "(mailboxOpen client path = Resolved ()
      \<and> fetch client search (buildFetchQuery ps) = map Yield ys @ Throw err # rest
      \<longrightarrow> snd (executeImapAction client path search ps) = Rejected err)
   \<and> (CallDownload u p \<in> set (fst (executeImapAction client path search ps))
      \<and> download client u p = Rejected err
      \<longrightarrow> snd (executeImapAction client path search ps) = Rejected err)
   \<and> (CallDownload u p \<in> set (fst (executeImapAction client path search ps))
      \<and> download client u p = Resolved content \<and> streamToString content = Rejected err
      \<longrightarrow> snd (executeImapAction client path search ps) = Rejected err)
   \<and> (snd (executeImapAction client path search ps) = Resolved rs
      \<longrightarrow> (\<exists>rest'. fetch client search (buildFetchQuery ps)
                  = map Yield (map json_email rs) @ Return # rest'))"
proof (intro conjI impI)
  assume "mailboxOpen client path = Resolved ()
          \<and> fetch client search (buildFetchQuery ps) = map Yield ys @ Throw err # rest"
  then show "snd (executeImapAction client path search ps) = Rejected err"
    by (simp add: executeImapAction_snd forAwaitFetch_Throw)
next
  assume a: "CallDownload u p \<in> set (fst (executeImapAction client path search ps))
             \<and> download client u p = Rejected err"
  then have "contentOf client u p = Rejected err"
    by (simp add: contentOf_def)
  with a show "snd (executeImapAction client path search ps) = Rejected err"
    by (blast intro: executeImapAction_fail)
next
  assume a: "CallDownload u p \<in> set (fst (executeImapAction client path search ps))
             \<and> download client u p = Resolved content
             \<and> streamToString content = Rejected err"
  then have "contentOf client u p = Rejected err"
    by (simp add: contentOf_def)
  with a show "snd (executeImapAction client path search ps) = Rejected err"
    by (blast intro: executeImapAction_fail)
next
  assume "snd (executeImapAction client path search ps) = Resolved rs"
  from executeImapAction_Resolved[OF this] obtain es rest' where
    f: "fetch client search (buildFetchQuery ps) = map Yield es @ Return # rest'"
    and all: "list_all2
                (\<lambda>e r. snd (processEmail client (AttachmentsInfo \<in> set ps)
                             (TextContent \<in> set ps) (HtmlContent \<in> set ps) e) = Resolved r)
                es rs"
    by blast
  from all have "list_all2 (\<lambda>e r. json_email r = e) es rs"
    by (rule list_all2_mono) (simp add: processEmail_Resolved(1))
  then have "map json_email rs = es"
    by (induction es rs rule: list_all2_induct) simp_all
  with f show "\<exists>rest'. fetch client search (buildFetchQuery ps)
                 = map Yield (map json_email rs) @ Return # rest'"
    by blast
qed

theorem transport_error_aborts_listing_witness:
  "snd (executeImapAction fetch_breaks ''INBOX'' ''ALL'' [TextContent])
     = Rejected connection_lost
   \<and> CallDownload ''3'' ''TEXT''
       \<in> set (fst (executeImapAction third_download_fails ''INBOX'' ''ALL'' [TextContent]))
   \<and> snd (executeImapAction third_download_fails ''INBOX'' ''ALL'' [TextContent])
       = Rejected connection_lost
   \<and> CallDownload ''1'' ''TEXT''
       \<in> set (fst (executeImapAction streams_break ''INBOX'' ''ALL'' [TextContent]))
   \<and> snd (executeImapAction streams_break ''INBOX'' ''ALL'' [TextContent])
       = Rejected connection_lost
   \<and> snd (executeImapAction good_client ''INBOX'' ''ALL'' [AttachmentsInfo, TextContent])
       = Resolved [report_record, note_record]
   \<and> take 3 (fetch good_client ''ALL'' (buildFetchQuery [AttachmentsInfo, TextContent]))
       = map Yield (map json_email [report_record, note_record]) @ [Return]"
proof (intro conjI)
  have "mailboxOpen fetch_breaks ''INBOX'' = Resolved ()
        \<and> fetch fetch_breaks ''ALL'' (buildFetchQuery [TextContent])
            = map Yield (take 1 five_messages) @ Throw connection_lost # []"
    by (simp add: fetch_breaks_def)
  with transport_error_aborts_listing
         [where client = fetch_breaks and path = "''INBOX''" and search = "''ALL''"
            and ps = "[TextContent]" and ys = "take 1 five_messages"
            and err = connection_lost and rest = "[]"]
  show "snd (executeImapAction fetch_breaks ''INBOX'' ''ALL'' [TextContent])
          = Rejected connection_lost"
    by blast
next
  show third: "CallDownload ''3'' ''TEXT''
      \<in> set (fst (executeImapAction third_download_fails ''INBOX'' ''ALL'' [TextContent]))"
    by (simp add: third_download_fails_trace)
  have "download third_download_fails ''3'' ''TEXT'' = Rejected connection_lost"
    by (simp add: third_download_fails_def)
  with third transport_error_aborts_listing
         [where client = third_download_fails and path = "''INBOX''"
            and search = "''ALL''" and ps = "[TextContent]" and u = "''3''"
            and p = "''TEXT''" and err = connection_lost]
  show "snd (executeImapAction third_download_fails ''INBOX'' ''ALL'' [TextContent])
          = Rejected connection_lost"
    by blast
next
  show first: "CallDownload ''1'' ''TEXT''
      \<in> set (fst (executeImapAction streams_break ''INBOX'' ''ALL'' [TextContent]))"
    by (simp add: streams_break_trace)
  have "download streams_break ''1'' ''TEXT''
          = Resolved [Data [0x68], ErrorEv connection_lost]
        \<and> streamToString [Data [0x68], ErrorEv connection_lost] = Rejected connection_lost"
    by (simp add: streams_break_def streamToString_def)
  with first transport_error_aborts_listing
         [where client = streams_break and path = "''INBOX''" and search = "''ALL''"
            and ps = "[TextContent]" and u = "''1''" and p = "''TEXT''"
            and content = "[Data [0x68], ErrorEv connection_lost]"
            and err = connection_lost]
  show "snd (executeImapAction streams_break ''INBOX'' ''ALL'' [TextContent])
          = Rejected connection_lost"
    by blast
next
  show run: "snd (executeImapAction good_client ''INBOX'' ''ALL''
                    [AttachmentsInfo, TextContent])
               = Resolved [report_record, note_record]"
    by (simp add: good_client_run report_record_def note_record_def)
  with transport_error_aborts_listing
         [where client = good_client and path = "''INBOX''" and search = "''ALL''"
            and ps = "[AttachmentsInfo, TextContent]"
            and rs = "[report_record, note_record]"]
  obtain rest' where
    "fetch good_client ''ALL'' (buildFetchQuery [AttachmentsInfo, TextContent])
       = map Yield (map json_email [report_record, note_record]) @ Return # rest'"
    by blast
  then show "take 3 (fetch good_client ''ALL''
                       (buildFetchQuery [AttachmentsInfo, TextContent]))
               = map Yield (map json_email [report_record, note_record]) @ [Return]"
    by simp
qed

text \<open>
  C5, as stated, fails: with the flags \<^verbatim>\<open>bodyStructure\<close> and \<^verbatim>\<open>flags\<close>, none of the
  attachments, text and HTML flags is selected and the descriptor of the bulk fetch
  requests \<^verbatim>\<open>bodyStructure\<close>.
\<close>

theorem bodyStructure_flag_requested_counterexample:
  "AttachmentsInfo \<notin> set [BodyStructure, Flags]
   \<and> TextContent \<notin> set [BodyStructure, Flags]
   \<and> HtmlContent \<notin> set [BodyStructure, Flags]
   \<and> q_bodyStructure (buildFetchQuery [BodyStructure, Flags])
   \<and> CallFetch (buildFetchQuery [BodyStructure, Flags])
       \<in> set (fst (executeImapAction good_client ''INBOX'' ''ALL'' [BodyStructure, Flags]))"
  by (simp add: buildFetchQuery_fields good_client_metadata_only)

text \<open>
  C5, amended. When none of the attachments, text and HTML flags is selected, the action
  requests no download, and the descriptor of the bulk fetch requests \<^verbatim>\<open>bodyStructure\<close>
  exactly when the body structure flag itself is selected.
\<close>

theorem no_content_flags_no_download:
  "AttachmentsInfo \<notin> set ps \<Longrightarrow> TextContent \<notin> set ps \<Longrightarrow> HtmlContent \<notin> set ps \<Longrightarrow>
   filter is_download (fst (executeImapAction client path search ps)) = []
   \<and> q_bodyStructure (buildFetchQuery ps) = (BodyStructure \<in> set ps)"
  by (simp add: executeImapAction_fst forAwaitFetch_trace forEmails_no_content
      buildFetchQuery_fields split: promise.splits)

theorem no_content_flags_no_download_witness:
  "AttachmentsInfo \<notin> set [Flags, Size] \<and> TextContent \<notin> set [Flags, Size]
   \<and> HtmlContent \<notin> set [Flags, Size]
   \<and> filter is_download
        (fst (executeImapAction good_client ''INBOX'' ''ALL'' [Flags, Size])) = []
   \<and> \<not> q_bodyStructure (buildFetchQuery [Flags, Size])"
  using no_content_flags_no_download
          [of "[Flags, Size]" good_client "''INBOX''" "''ALL''"]
  by simp

text \<open>
  C10. In every record of a returned listing: when the attachments info is requested the
  record has the field \<^verbatim>\<open>attachmentsInfo\<close>, the list of the attachments found in the
  body structure, which is the empty list when the message has no body structure (and
  when no descriptor is an attachment); without the flag the field is not added. The
  record has \<^verbatim>\<open>textContent\<close> exactly when the text content is requested and the analysis
  found a text part id, and \<^verbatim>\<open>htmlContent\<close> exactly when the HTML content is requested
  and the analysis found an HTML part id.
\<close>

theorem requested_fields_in_records:
  "snd (executeImapAction client path search ps) = Resolved rs \<Longrightarrow> r \<in> set rs \<Longrightarrow>
   json_attachmentsInfo r =
     (if AttachmentsInfo \<in> set ps
      then Some (case bodyStructure (json_email r) of
                   None \<Rightarrow> []
                 | Some root \<Rightarrow>
                     map attachmentOf
                       (filter is_attachment (getEmailPartsInfoRecursive root)))
      else None)
   \<and> (json_textContent r \<noteq> None) =
       (TextContent \<in> set ps
        \<and> truthy (textPartId (analyzeBody True (bodyStructure (json_email r)))))
   \<and> (json_htmlContent r \<noteq> None) =
       (HtmlContent \<in> set ps
        \<and> truthy (htmlPartId (analyzeBody True (bodyStructure (json_email r)))))"
proof -
  assume run: "snd (executeImapAction client path search ps) = Resolved rs"
    and r: "r \<in> set rs"
  from executeImapAction_Resolved[OF run] obtain es where
    "list_all2
       (\<lambda>e r. snd (processEmail client (AttachmentsInfo \<in> set ps)
                    (TextContent \<in> set ps) (HtmlContent \<in> set ps) e) = Resolved r)
       es rs"
    by blast
  with r obtain e where
    e: "snd (processEmail client (AttachmentsInfo \<in> set ps) (TextContent \<in> set ps)
              (HtmlContent \<in> set ps) e) = Resolved r"
    by (auto simp: in_set_conv_nth list_all2_conv_all_nth)
  from processEmail_Resolved[OF e] show ?thesis
    by (simp add: analyzeBody_attachments)
qed

theorem requested_fields_in_records_witness:
  "snd (executeImapAction good_client ''INBOX'' ''ALL'' [AttachmentsInfo, TextContent])
     = Resolved [report_record, note_record]
   \<and> note_record \<in> set [report_record, note_record]
   \<and> json_attachmentsInfo note_record = Some []
   \<and> json_textContent note_record = None
   \<and> json_htmlContent note_record = None"
proof -
  have run: "snd (executeImapAction good_client ''INBOX'' ''ALL''
                    [AttachmentsInfo, TextContent])
               = Resolved [report_record, note_record]"
    by (simp add: good_client_run report_record_def note_record_def)
  have mem: "note_record \<in> set [report_record, note_record]"
    by simp
  have no_structure: "bodyStructure (json_email note_record) = None"
    by (simp add: note_record_def)
  from requested_fields_in_records [OF run mem] run no_structure show ?thesis
    by (simp add: analyzeBody_def truthy_def)
qed

section \<open>Reading a content stream\<close>

lemma streamListeners_end:
  "streamListeners acc (map Data chunks @ EndEv # rest) =
     Resolved (toString_utf8 (concat (acc @ chunks)))"
  by (induction chunks arbitrary: acc) simp_all

lemma streamListeners_error:
  "streamListeners acc (map Data chunks @ ErrorEv err # rest) = Rejected err"
  by (induction chunks arbitrary: acc) simp_all

lemma streamListeners_stall: "streamListeners acc (map Data chunks) = Pending"
  by (induction chunks arbitrary: acc) simp_all

text \<open>
  C6, as stated, fails: a stream that delivers the single byte FF, which is not valid
  UTF-8, and then ends is read successfully, and the string returned is the replacement
  character U+FFFD.
\<close>

theorem invalid_utf8_replaced_counterexample:
  "streamToString [Data [0xFF], EndEv] = Resolved [0xFFFD]"
  by (simp add: streamToString_def toString_utf8_def)

text \<open>
  C6, amended. A stream that ends after any chunks is read successfully, whatever its
  bytes: the result is the decoding of the concatenated chunks, and the decoding has no
  failure case. The reading fails exactly when the stream emits an error before its end,
  with that error; a stream that stalls never settles. Every stream is of one of these
  three forms. A stream of one byte that ends gives that byte when it is ASCII and U+FFFD
  otherwise.
\<close>

theorem streamToString_outcomes:
  "streamToString (map Data chunks @ EndEv # rest) = Resolved (toString_utf8 (concat chunks))
   \<and> streamToString (map Data chunks @ ErrorEv err # rest) = Rejected err
   \<and> streamToString (map Data chunks) = Pending
   \<and> streamToString [Data [b], EndEv] = Resolved [if b \<le> 0x7F then unat b else 0xFFFD]"
  by (simp add: streamToString_def streamListeners_end streamListeners_error
      streamListeners_stall toString_utf8_def)

end
